theory Spec2Isabelle
  imports Main "HOL-Library.Sublist"
begin

section \<open>Python values, exceptions and calendar dates\<close>

text \<open>
  Both sources work on the value that the JSON decoder returns: \<open>None\<close>, a bool, a
  number, a \<open>str\<close>, a \<open>list\<close> or a \<open>dict\<close> with \<open>str\<close> keys. The keys of a decoded
  object are distinct; the model keeps a \<open>dict\<close> as an association list in insertion
  order. Numbers are integers here: the code only tests a number for truth, hashes it or
  passes it on. Strings are ASCII texts.
\<close>

datatype json =
    JNull
  | JBool bool
  | JNum int
  | JStr string
  | JArr "json list"
  | JObj "(string \<times> json) list"

text \<open>
  An exception is its class. \<open>Raise\<close> is a \<^verbatim>\<open>raise\<close> statement of the source, with the
  message it builds; \<open>Builtin\<close> is an exception raised by the interpreter or by a
  library (\<^verbatim>\<open>KeyError\<close> of a subscript, \<^verbatim>\<open>ValueError\<close> of \<^verbatim>\<open>strptime\<close>, ...),
  whose message is not modelled.
\<close>

datatype exn_class =
    Exception
  | ValueError
  | RuntimeError
  | RequestException
  | KeyError
  | TypeError
  | AttributeError
  | JSONDecodeError
  | IndexError
  | ParserError
  | OverflowError

datatype error =
    Raise exn_class string
  | Builtin exn_class

datatype date = Date (year: nat) (month: nat) (day: nat)

text \<open>The record type of the framework: \<^verbatim>\<open>Collection(date=..., t=..., icon=...)\<close>.\<close>

datatype collection = Collection (coll_date: date) (coll_type: json) (coll_icon: "string option")

subsection \<open>Truth value, subscript, iteration\<close>

fun truthy :: "json \<Rightarrow> bool" where
  "truthy JNull = False"
| "truthy (JBool b) = b"
| "truthy (JNum n) = (n \<noteq> 0)"
| "truthy (JStr s) = (s \<noteq> [])"
| "truthy (JArr xs) = (xs \<noteq> [])"
| "truthy (JObj kvs) = (kvs \<noteq> [])"

text \<open>\<^verbatim>\<open>v[k]\<close> with a string key \<open>k\<close>: only a \<open>dict\<close> can answer.\<close>

fun subscript :: "json \<Rightarrow> string \<Rightarrow> error + json" where
  "subscript (JObj kvs) k =
     (case map_of kvs k of None \<Rightarrow> Inl (Builtin KeyError) | Some v \<Rightarrow> Inr v)"
| "subscript _ k = Inl (Builtin TypeError)"

text \<open>
  \<^verbatim>\<open>for x in v\<close>: a list gives its elements, a \<open>dict\<close> its keys, a \<open>str\<close> its
  characters; anything else is not iterable.
\<close>

fun py_iter :: "json \<Rightarrow> error + json list" where
  "py_iter (JArr xs) = Inr xs"
| "py_iter (JObj kvs) = Inr (map (\<lambda>kv. JStr (fst kv)) kvs)"
| "py_iter (JStr s) = Inr (map (\<lambda>c. JStr [c]) s)"
| "py_iter _ = Inl (Builtin TypeError)"

subsection \<open>Characters\<close>

text \<open>\<^verbatim>\<open>str.isspace\<close> on ASCII: tab to carriage return, the four separators, the space.\<close>

definition is_space :: "char \<Rightarrow> bool" where
  "is_space c \<longleftrightarrow>
     c = CHR '' '' \<or> c = CHR 0x09 \<or> c = CHR 0x0A \<or> c = CHR 0x0B \<or> c = CHR 0x0C \<or>
     c = CHR 0x0D \<or> c = CHR 0x1C \<or> c = CHR 0x1D \<or> c = CHR 0x1E \<or> c = CHR 0x1F"

definition lower_char :: "char \<Rightarrow> char" where
  "lower_char c =
     (case map_of (zip ''ABCDEFGHIJKLMNOPQRSTUVWXYZ'' ''abcdefghijklmnopqrstuvwxyz'') c of
        None \<Rightarrow> c
      | Some l \<Rightarrow> l)"

definition lower :: "string \<Rightarrow> string" where
  "lower s = map lower_char s"

definition digit_of :: "char \<Rightarrow> nat option" where
  "digit_of c = map_of (zip ''0123456789'' [0, 1, 2, 3, 4, 5, 6, 7, 8, 9]) c"

text \<open>\<^verbatim>\<open>str.strip()\<close>: whitespace is removed at both ends.\<close>

definition strip :: "string \<Rightarrow> string" where
  "strip s = rev (dropWhile is_space (rev (dropWhile is_space s)))"

text \<open>\<^verbatim>\<open>sub in s\<close> for two strings.\<close>

fun py_in :: "string \<Rightarrow> string \<Rightarrow> bool" where
  "py_in sub [] = (sub = [])"
| "py_in sub (c # cs) = (prefix sub (c # cs) \<or> py_in sub cs)"

text \<open>\<^verbatim>\<open>str(n)\<close> for an integer.\<close>

definition digit_char :: "nat \<Rightarrow> char" where
  "digit_char d = ''0123456789'' ! (d mod 10)"

function str_nat :: "nat \<Rightarrow> string" where
  "str_nat n = (if n < 10 then [digit_char n] else str_nat (n div 10) @ [digit_char (n mod 10)])"
  by pat_completeness auto
termination
  by (relation "measure id") auto

definition str_int :: "int \<Rightarrow> string" where
  "str_int i = (if i < 0 then CHR ''-'' # str_nat (nat (- i)) else str_nat (nat i))"

section \<open>The library call \<^verbatim>\<open>datetime.strptime(s, "%A %d %B %Y").date()\<close>\<close>

text \<open>
  \<^verbatim>\<open>strptime\<close> turns the format into one regular expression, matched without regard to
  case from the start of the string, and refuses text that remains after the match:
  \<^item> \<^verbatim>\<open>%A\<close> is one of the weekday names and \<^verbatim>\<open>%B\<close> one of the month names of the
    locale (the English names here; none is a prefix of another);
  \<^item> a blank of the format is \<^verbatim>\<open>\s+\<close>, one or more whitespace characters;
  \<^item> \<^verbatim>\<open>%d\<close> is \<^verbatim>\<open>3[0-1]|[1-2]\d|0[1-9]|[1-9]| [1-9]\<close>, tried in this order (the
    last alternative is taken up by the whitespace before it);
  \<^item> \<^verbatim>\<open>%Y\<close> is \<^verbatim>\<open>\d\d\d\d\<close>.
  The weekday is read and not compared with the date. The date is then built by
  \<^verbatim>\<open>datetime.date(year, month, day)\<close>, which refuses the year 0 and a day that the
  month does not have.
\<close>

definition f_weekday :: "string list" where
  "f_weekday = [''monday'', ''tuesday'', ''wednesday'', ''thursday'', ''friday'',
                ''saturday'', ''sunday'']"

definition f_month :: "string list" where
  "f_month = ['''', ''january'', ''february'', ''march'', ''april'', ''may'', ''june'', ''july'',
              ''august'', ''september'', ''october'', ''november'', ''december'']"

text \<open>The first name of the list that the text starts with: its index and the rest.\<close>

fun match_name :: "string list \<Rightarrow> nat \<Rightarrow> string \<Rightarrow> (nat \<times> string) option" where
  "match_name [] i s = None"
| "match_name (n # ns) i s =
     (if n \<noteq> [] \<and> lower (take (length n) s) = n then Some (i, drop (length n) s)
      else match_name ns (Suc i) s)"

definition match_space :: "string \<Rightarrow> string option" where
  "match_space s =
     (case s of [] \<Rightarrow> None
      | c # cs \<Rightarrow> if is_space c then Some (dropWhile is_space cs) else None)"

definition match_day :: "string \<Rightarrow> (nat \<times> string) option" where
  "match_day s =
     (case s of
        [] \<Rightarrow> None
      | a # r \<Rightarrow>
          (case digit_of a of
             None \<Rightarrow> None
           | Some x \<Rightarrow>
               (let two = (case r of [] \<Rightarrow> None
                           | b # r' \<Rightarrow> (case digit_of b of None \<Rightarrow> None | Some y \<Rightarrow> Some (y, r')))
                in case two of
                     Some (y, r') \<Rightarrow>
                       if x = 3 \<and> y \<le> 1 then Some (30 + y, r')
                       else if x = 1 \<or> x = 2 then Some (10 * x + y, r')
                       else if x = 0 \<and> 1 \<le> y then Some (y, r')
                       else if 1 \<le> x then Some (x, r)
                       else None
                   | None \<Rightarrow> if 1 \<le> x then Some (x, r) else None)))"

definition match_year :: "string \<Rightarrow> nat option" where
  "match_year s =
     (case map digit_of s of
        [Some a, Some b, Some c, Some d] \<Rightarrow> Some (1000 * a + 100 * b + 10 * c + d)
      | _ \<Rightarrow> None)"

definition is_leap :: "nat \<Rightarrow> bool" where
  "is_leap y \<longleftrightarrow> y mod 4 = 0 \<and> (y mod 100 \<noteq> 0 \<or> y mod 400 = 0)"

definition days_in_month :: "nat \<Rightarrow> nat \<Rightarrow> nat" where
  "days_in_month y m =
     (if m = 2 then (if is_leap y then 29 else 28)
      else if m = 4 \<or> m = 6 \<or> m = 9 \<or> m = 11 then 30 else 31)"

text \<open>\<^verbatim>\<open>datetime.date(y, m, d)\<close>.\<close>

definition make_date :: "nat \<Rightarrow> nat \<Rightarrow> nat \<Rightarrow> error + date" where
  "make_date y m d =
     (if 1 \<le> y \<and> y \<le> 9999 \<and> 1 \<le> m \<and> m \<le> 12 \<and> 1 \<le> d \<and> d \<le> days_in_month y m
      then Inr (Date y m d) else Inl (Builtin ValueError))"

definition strptime :: "string \<Rightarrow> error + date" where
  "strptime s =
     (case match_name f_weekday 0 s of
        None \<Rightarrow> Inl (Builtin ValueError)
      | Some (wd, s1) \<Rightarrow>
     (case match_space s1 of
        None \<Rightarrow> Inl (Builtin ValueError)
      | Some s2 \<Rightarrow>
     (case match_day s2 of
        None \<Rightarrow> Inl (Builtin ValueError)
      | Some (d, s3) \<Rightarrow>
     (case match_space s3 of
        None \<Rightarrow> Inl (Builtin ValueError)
      | Some s4 \<Rightarrow>
     (case match_name f_month 0 s4 of
        None \<Rightarrow> Inl (Builtin ValueError)
      | Some (m, s5) \<Rightarrow>
     (case match_space s5 of
        None \<Rightarrow> Inl (Builtin ValueError)
      | Some s6 \<Rightarrow>
     (case match_year s6 of
        None \<Rightarrow> Inl (Builtin ValueError)
      | Some y \<Rightarrow> make_date y m d)))))))"

section \<open>London Borough of Barking and Dagenham (\<^verbatim>\<open>lbbd_gov_uk.py\<close>)\<close>

text \<open>The values of the table: a \<open>dict\<close> with the keys \<^verbatim>\<open>"waste_type"\<close> and \<^verbatim>\<open>"icon"\<close>.\<close>

record collection_type =
  ct_waste_type :: json
  ct_icon :: "string option"

definition COLLECTION_MAP :: "string \<rightharpoonup> collection_type" where
  "COLLECTION_MAP = map_of
     [(''Grey-Household'', \<lparr>ct_waste_type = JStr ''General waste'', ct_icon = Some ''mdi:trash-can''\<rparr>),
      (''Brown-Recycling'', \<lparr>ct_waste_type = JStr ''Recycling'', ct_icon = Some ''mdi:recycle''\<rparr>),
      (''Green-Garden'', \<lparr>ct_waste_type = JStr ''Garden waste'', ct_icon = Some ''mdi:grass''\<rparr>)]"

text \<open>
  \<^verbatim>\<open>COLLECTION_MAP.get(bin_type, {"waste_type": bin_type, "icon": None})\<close>: a list or
  a \<open>dict\<close> cannot be hashed; every other value that is not a key gets the default.
\<close>

fun collection_type_of :: "json \<Rightarrow> error + collection_type" where
  "collection_type_of (JStr s) =
     Inr (case COLLECTION_MAP s of
            None \<Rightarrow> \<lparr>ct_waste_type = JStr s, ct_icon = None\<rparr>
          | Some ct \<Rightarrow> ct)"
| "collection_type_of (JArr xs) = Inl (Builtin TypeError)"
| "collection_type_of (JObj kvs) = Inl (Builtin TypeError)"
| "collection_type_of v = Inr \<lparr>ct_waste_type = v, ct_icon = None\<rparr>"

text \<open>
  The iterated expression
  \<^verbatim>\<open>([result["nextcollection"]] if result["nextcollection"] else []) + result["futurecollections"]\<close>;
  \<^verbatim>\<open>+\<close> needs a list on its right.
\<close>

definition date_list :: "json \<Rightarrow> error + json list" where
  "date_list result =
     (case subscript result ''nextcollection'' of
        Inl e \<Rightarrow> Inl e
      | Inr nc \<Rightarrow>
     (case subscript result ''futurecollections'' of
        Inl e \<Rightarrow> Inl e
      | Inr fc \<Rightarrow>
     (case fc of
        JArr fs \<Rightarrow> Inr ((if truthy nc then [nc] else []) @ fs)
      | _ \<Rightarrow> Inl (Builtin TypeError))))"

text \<open>\<^verbatim>\<open>datetime.strptime(collection_date, "%A %d %B %Y").date()\<close>; the argument must be a \<open>str\<close>.\<close>

fun parse_collection_date :: "json \<Rightarrow> error + date" where
  "parse_collection_date (JStr s) = strptime s"
| "parse_collection_date _ = Inl (Builtin TypeError)"

text \<open>The inner loop, appending to \<open>entries\<close>.\<close>

fun date_loop :: "collection_type \<Rightarrow> json list \<Rightarrow> collection list \<Rightarrow> error + collection list" where
  "date_loop ct [] entries = Inr entries"
| "date_loop ct (collection_date # ds) entries =
     (case parse_collection_date collection_date of
        Inl e \<Rightarrow> Inl e
      | Inr d \<Rightarrow> date_loop ct ds (entries @ [Collection d (ct_waste_type ct) (ct_icon ct)]))"

text \<open>The outer loop over \<^verbatim>\<open>rubbish_data["results"]\<close>.\<close>

fun result_loop :: "json list \<Rightarrow> collection list \<Rightarrow> error + collection list" where
  "result_loop [] entries = Inr entries"
| "result_loop (result # rs) entries =
     (case subscript result ''bin_type'' of
        Inl e \<Rightarrow> Inl e
      | Inr bin_type \<Rightarrow>
     (case collection_type_of bin_type of
        Inl e \<Rightarrow> Inl e
      | Inr ct \<Rightarrow>
     (case date_list result of
        Inl e \<Rightarrow> Inl e
      | Inr ds \<Rightarrow>
     (case date_loop ct ds entries of
        Inl e \<Rightarrow> Inl e
      | Inr entries' \<Rightarrow> result_loop rs entries'))))"

text \<open>\<^verbatim>\<open>fetch\<close> from the decoded body \<^verbatim>\<open>rubbish_data = r.json()\<close> on.\<close>

definition lbbd_fetch :: "json \<Rightarrow> error + collection list" where
  "lbbd_fetch rubbish_data =
     (case subscript rubbish_data ''results'' of
        Inl e \<Rightarrow> Inl e
      | Inr results \<Rightarrow>
     (case py_iter results of
        Inl e \<Rightarrow> Inl e
      | Inr rs \<Rightarrow> result_loop rs []))"

subsection \<open>The specification's reading of the Barking and Dagenham output\<close>

text \<open>
  The date list in the specification's words: \<^verbatim>\<open>[nextcollection]\<close> if present, else
  \<^verbatim>\<open>[]\<close>, concatenated with \<^verbatim>\<open>futurecollections\<close>.
\<close>

definition spec_date_list :: "json \<Rightarrow> json list" where
  "spec_date_list entry =
     (case subscript entry ''nextcollection'' of
        Inl e \<Rightarrow> []
      | Inr nc \<Rightarrow> if truthy nc then [nc] else [])
     @ (case subscript entry ''futurecollections'' of Inr (JArr fs) \<Rightarrow> fs | _ \<Rightarrow> [])"

text \<open>The (entry, date) pairs in encounter order.\<close>

definition entry_date_pairs :: "json list \<Rightarrow> (json \<times> json) list" where
  "entry_date_pairs rs = concat (map (\<lambda>r. map (Pair r) (spec_date_list r)) rs)"

text \<open>
  A \<open>Collection\<close> is the one of an (entry, date) pair: its date is the parsed date
  string, its type and icon are those of the entry's \<^verbatim>\<open>bin_type\<close>.
\<close>

definition emitted_from :: "collection \<Rightarrow> json \<times> json \<Rightarrow> bool" where
  "emitted_from c p =
     (case subscript (fst p) ''bin_type'' of
        Inl e \<Rightarrow> False
      | Inr bt \<Rightarrow>
     (case collection_type_of bt of
        Inl e \<Rightarrow> False
      | Inr ct \<Rightarrow>
          parse_collection_date (snd p) = Inr (coll_date c) \<and>
          coll_type c = ct_waste_type ct \<and> coll_icon c = ct_icon ct))"

text \<open>An entry that the loop body accepts: every subscript answers and every date parses.\<close>

definition entry_ok :: "json \<Rightarrow> bool" where
  "entry_ok r \<longleftrightarrow>
     (case subscript r ''bin_type'' of
        Inl e \<Rightarrow> False
      | Inr bt \<Rightarrow> isl (collection_type_of bt) = False) \<and>
     isl (date_list r) = False \<and>
     list_all (\<lambda>d. isl (parse_collection_date d) = False) (spec_date_list r)"



section \<open>Woollahra Municipal Council (\<^verbatim>\<open>woollahra_nsw_gov_au.py\<close>)\<close>

subsection \<open>The session and the clock\<close>

text \<open>
  A URL is kept as its endpoint and the value put into the endpoint's template: the
  warm-up page, \<^verbatim>\<open>API_URLS["address_search"]\<close> with the address,
  \<^verbatim>\<open>API_URLS["collection"]\<close> with the location id.
\<close>

datatype url = MainPage | AddressSearch string | CollectionEndpoint json

record response =
  status_code :: int
  response_text :: string

text \<open>
  \<^verbatim>\<open>session.get\<close> returns a response or raises \<^verbatim>\<open>requests.RequestException\<close>
  (with its \<^verbatim>\<open>str(e)\<close>). The upstream site decides: it answers the \<open>n\<close>-th GET of the
  session (counted from 0) for the URL asked.
\<close>

datatype outcome = Response response | RequestFailed string

type_synonym upstream = "nat \<Rightarrow> url \<Rightarrow> outcome"

text \<open>What a call does to the outside: GET requests and \<^verbatim>\<open>time.sleep\<close> seconds, in order.\<close>

datatype event = Get url | Sleep nat

type_synonym world = "event list"

fun is_get :: "event \<Rightarrow> bool" where
  "is_get (Get u) = True"
| "is_get (Sleep n) = False"

definition gets :: "world \<Rightarrow> nat" where
  "gets w = length (filter is_get w)"

definition session_get :: "upstream \<Rightarrow> url \<Rightarrow> world \<Rightarrow> outcome \<times> world" where
  "session_get up u w = (up (gets w) u, w @ [Get u])"

definition sleep :: "nat \<Rightarrow> world \<Rightarrow> world" where
  "sleep n w = w @ [Sleep n]"

subsection \<open>\<^verbatim>\<open>_make_request_with_retry\<close>\<close>

text \<open>
  The body of \<^verbatim>\<open>for attempt in range(max_retries)\<close> from \<open>attempt\<close> on. The
  \<^verbatim>\<open>raise Exception\<close> inside the \<^verbatim>\<open>try\<close> is not a \<^verbatim>\<open>RequestException\<close> and leaves
  the function.
\<close>

function retry_loop ::
  "upstream \<Rightarrow> url \<Rightarrow> int \<Rightarrow> int \<Rightarrow> world \<Rightarrow> (error + response) \<times> world" where
  "retry_loop up u max_retries attempt w =
     (if attempt < max_retries then
        (case session_get up u w of
           (Response r, w1) \<Rightarrow>
             if status_code r = 200 then (Inr r, w1)
             else if status_code r = 403 \<and> attempt < max_retries - 1 then
               retry_loop up u max_retries (attempt + 1) (sleep (2 ^ nat attempt) w1)
             else
               (Inl (Raise Exception
                  (''Failed to fetch: '' @ str_int (status_code r) @
                   '' (attempt '' @ str_int (attempt + 1) @ '')'')), w1)
         | (RequestFailed msg, w1) \<Rightarrow>
             if attempt = max_retries - 1 then
               (Inl (Raise Exception (''Network error: '' @ msg)), w1)
             else retry_loop up u max_retries (attempt + 1) (sleep (2 ^ nat attempt) w1))
      else (Inl (Raise RequestException ''Max retries exceeded while fetching URL''), w))"
  by pat_completeness auto
termination
  by (relation "measure (\<lambda>(up, u, max_retries, attempt, w). nat (max_retries - attempt))") auto

definition make_request_with_retry ::
  "upstream \<Rightarrow> url \<Rightarrow> int \<Rightarrow> world \<Rightarrow> (error + response) \<times> world" where
  "make_request_with_retry up u max_retries w = retry_loop up u max_retries 0 w"

subsection \<open>The libraries of \<^verbatim>\<open>fetch\<close>\<close>

text \<open>
  A result block \<^verbatim>\<open>item\<close> of the parsed fragment, as the loop reads it: the \<^verbatim>\<open>.text\<close>
  of \<^verbatim>\<open>item.find("h3")\<close> and of \<^verbatim>\<open>item.find("div", class next-service)\<close>, \<open>None\<close>
  where \<^verbatim>\<open>find\<close> returns \<open>None\<close> (a tag that is found is true).
\<close>

record block =
  heading :: "string option"
  next_service :: "string option"

text \<open>
  The library functions are parameters:
  \<^item> \<open>json_loads\<close> is \<^verbatim>\<open>json.loads\<close>, \<open>None\<close> where it raises \<^verbatim>\<open>JSONDecodeError\<close>;
  \<^item> \<open>find_services\<close> is \<^verbatim>\<open>BeautifulSoup(c, "html.parser").find_all("div", class waste-services-result)\<close>;
  \<^item> \<open>dateutil_parse\<close> is \<^verbatim>\<open>dateutil.parser.parse(s, dayfirst=True, fuzzy=True).date()\<close>.
  Where one raises, it gives the class of the exception.
\<close>

record libs =
  json_loads :: "string \<Rightarrow> json option"
  find_services :: "json \<Rightarrow> exn_class + block list"
  dateutil_parse :: "string \<Rightarrow> exn_class + date"

subsection \<open>The result blocks\<close>

definition CLEANUP_ICON :: string where
  "CLEANUP_ICON = ''mdi:delete-sweep''"

definition ICON_MAP :: "string \<rightharpoonup> string" where
  "ICON_MAP = map_of
     [(''General Waste'', ''mdi:trash-can''),
      (''Green Waste'', ''mdi:leaf''),
      (''Recycling'', ''mdi:recycle''),
      (''Spring Clean-Up'', CLEANUP_ICON),
      (''Summer Clean-Up'', CLEANUP_ICON),
      (''Winter Clean-Up'', CLEANUP_ICON)]"

text \<open>\<^verbatim>\<open>ICON_MAP.get(waste_type, "mdi:trash-can")\<close>.\<close>

definition icon_of :: "string \<Rightarrow> string" where
  "icon_of waste_type = (case ICON_MAP waste_type of None \<Rightarrow> ''mdi:trash-can'' | Some i \<Rightarrow> i)"

text \<open>The normalisation of the seasonal clean-up names.\<close>

definition normalize :: "string \<Rightarrow> string" where
  "normalize waste_type =
     (if py_in ''spring'' (lower waste_type) \<and> py_in ''clean'' (lower waste_type)
        then ''Spring Clean-Up''
      else if py_in ''summer'' (lower waste_type) \<and> py_in ''clean'' (lower waste_type)
        then ''Summer Clean-Up''
      else if py_in ''winter'' (lower waste_type) \<and> py_in ''clean'' (lower waste_type)
        then ''Winter Clean-Up''
      else waste_type)"

text \<open>
  \<^verbatim>\<open>_parse_date\<close>: \<^verbatim>\<open>ParserError\<close> and \<^verbatim>\<open>OverflowError\<close> are caught and give
  \<open>None\<close>; any other exception leaves the function.
\<close>

definition parse_date :: "libs \<Rightarrow> string \<Rightarrow> error + date option" where
  "parse_date L date_text =
     (case dateutil_parse L date_text of
        Inr d \<Rightarrow> Inr (Some d)
      | Inl cls \<Rightarrow>
          if cls = ParserError \<or> cls = OverflowError then Inr None else Inl (Builtin cls))"

text \<open>The loop \<^verbatim>\<open>for item in services\<close>; \<^verbatim>\<open>continue\<close> goes on with the next block.\<close>

fun service_loop :: "libs \<Rightarrow> block list \<Rightarrow> collection list \<Rightarrow> error + collection list" where
  "service_loop L [] entries = Inr entries"
| "service_loop L (item # items) entries =
     (case heading item of
        None \<Rightarrow> service_loop L items entries
      | Some h \<Rightarrow>
     (let waste_type = normalize (strip h) in
      case next_service item of
        None \<Rightarrow> service_loop L items entries
      | Some t \<Rightarrow>
     (case parse_date L (strip t) of
        Inl e \<Rightarrow> Inl e
      | Inr None \<Rightarrow> service_loop L items entries
      | Inr (Some d) \<Rightarrow>
          service_loop L items
            (entries @ [Collection d (JStr waste_type) (Some (icon_of waste_type))]))))"


subsection \<open>\<^verbatim>\<open>Source.__init__\<close> and \<^verbatim>\<open>Source.fetch\<close>\<close>

definition Source_init :: "string \<Rightarrow> string" where
  "Source_init address = strip address"

text \<open>The first request, for the cookies: its result is not used.\<close>

definition warm_up :: "upstream \<Rightarrow> world \<Rightarrow> world" where
  "warm_up up w =
     (case session_get up MainPage w of
        (Response r, w1) \<Rightarrow>
          if status_code r \<noteq> 200 \<and> status_code r \<noteq> 403 then sleep 2 w1 else w1
      | (RequestFailed msg, w1) \<Rightarrow> w1)"

text \<open>\<^verbatim>\<open>data.get(k)\<close>: only a \<open>dict\<close> has the method.\<close>

fun py_get :: "json \<Rightarrow> string \<Rightarrow> error + json" where
  "py_get (JObj kvs) k = Inr (case map_of kvs k of None \<Rightarrow> JNull | Some v \<Rightarrow> v)"
| "py_get _ k = Inl (Builtin AttributeError)"

fun py_len :: "json \<Rightarrow> error + nat" where
  "py_len (JArr xs) = Inr (length xs)"
| "py_len (JStr s) = Inr (length s)"
| "py_len (JObj kvs) = Inr (length kvs)"
| "py_len _ = Inl (Builtin TypeError)"

text \<open>\<^verbatim>\<open>v[0]\<close>; a decoded \<open>dict\<close> has no key \<open>0\<close>.\<close>

fun py_item0 :: "json \<Rightarrow> error + json" where
  "py_item0 (JArr []) = Inl (Builtin IndexError)"
| "py_item0 (JArr (x # xs)) = Inr x"
| "py_item0 (JStr []) = Inl (Builtin IndexError)"
| "py_item0 (JStr (c # cs)) = Inr (JStr [c])"
| "py_item0 (JObj kvs) = Inl (Builtin KeyError)"
| "py_item0 _ = Inl (Builtin TypeError)"

text \<open>
  \<^verbatim>\<open>if data.get("Items") and len(data["Items"]) > 0: location_id = data["Items"][0]["Id"]\<close>,
  with \<open>location_id\<close> set to \<open>None\<close> before.
\<close>

definition find_location_id :: "json \<Rightarrow> error + json" where
  "find_location_id data =
     (case py_get data ''Items'' of
        Inl e \<Rightarrow> Inl e
      | Inr items \<Rightarrow>
          if truthy items then
            (case py_len items of
               Inl e \<Rightarrow> Inl e
             | Inr n \<Rightarrow>
                 if 0 < n then
                   (case py_item0 items of
                      Inl e \<Rightarrow> Inl e
                    | Inr first \<Rightarrow> subscript first ''Id'')
                 else Inr JNull)
          else Inr JNull)"

text \<open>The second half of \<^verbatim>\<open>fetch\<close>, from \<^verbatim>\<open>time.sleep(1)\<close> on.\<close>

definition fetch_services ::
  "libs \<Rightarrow> upstream \<Rightarrow> json \<Rightarrow> world \<Rightarrow> (error + collection list) \<times> world" where
  "fetch_services L up location_id w =
     (case make_request_with_retry up (CollectionEndpoint location_id) 3 (sleep 1 w) of
        (Inl e, w1) \<Rightarrow> (Inl e, w1)
      | (Inr r, w1) \<Rightarrow>
          if status_code r \<noteq> 200 then
            (Inl (Raise Exception
               (''Unable to access Woollahra waste services API (status: '' @
                str_int (status_code r) @ '')'')), w1)
          else
            (case json_loads L (response_text r) of
               None \<Rightarrow>
                 if py_in ''Access Denied'' (response_text r) then
                   (Inl (Raise Exception
                      ''Access denied by Woollahra website during waste services fetch.''), w1)
                 else
                   (Inl (Raise Exception ''Invalid JSON response from waste services API''), w1)
             | Some data \<Rightarrow>
            (case py_get data ''success'' of
               Inl e \<Rightarrow> (Inl e, w1)
             | Inr success \<Rightarrow>
            (if \<not> truthy success then
               (Inl (Raise RuntimeError ''Invalid response from waste services API''), w1)
             else
            (case py_get data ''responseContent'' of
               Inl e \<Rightarrow> (Inl e, w1)
             | Inr response_content \<Rightarrow>
            (if \<not> truthy response_content then
               (Inl (Raise RuntimeError ''Invalid response from waste services API''), w1)
             else
            (case find_services L response_content of
               Inl cls \<Rightarrow> (Inl (Builtin cls), w1)
             | Inr services \<Rightarrow> (service_loop L services [], w1))))))))"

text \<open>\<^verbatim>\<open>fetch\<close> with the stored address; the session is new, so no request has been made.\<close>

definition woollahra_fetch ::
  "libs \<Rightarrow> upstream \<Rightarrow> string \<Rightarrow> (error + collection list) \<times> world" where
  "woollahra_fetch L up address =
     (case make_request_with_retry up (AddressSearch address) 3 (warm_up up []) of
        (Inl e, w) \<Rightarrow> (Inl e, w)
      | (Inr r, w) \<Rightarrow>
          if status_code r \<noteq> 200 then
            (Inl (Raise Exception
               (''Unable to access Woollahra API (status: '' @ str_int (status_code r) @
                ''). This may be due to bot protection. Please try again later or contact support.'')),
             w)
          else
            (case json_loads L (response_text r) of
               None \<Rightarrow>
                 if py_in ''Access Denied'' (response_text r) then
                   (Inl (Raise Exception
                      ''Access denied by Woollahra website. This may be due to bot protection measures. Please try again later.''),
                    w)
                 else (Inl (Raise Exception ''Invalid JSON response from address search API''), w)
             | Some data \<Rightarrow>
            (case find_location_id data of
               Inl e \<Rightarrow> (Inl e, w)
             | Inr location_id \<Rightarrow>
                 if \<not> truthy location_id then
                   (Inl (Raise ValueError
                      (''Unable to find location ID for '' @ address @
                       ''. Please check your address details are correct.'')), w)
                 else fetch_services L up location_id w)))"

section \<open>Barking and Dagenham: the loops\<close>


lemma date_list_spec: "date_list r = Inr ds \<Longrightarrow> ds = spec_date_list r"
  by (auto simp: date_list_def spec_date_list_def split: sum.splits json.splits)

lemma date_loop_Inr:
  "date_loop ct ds acc = Inr out \<longleftrightarrow>
     (\<exists>dts. map parse_collection_date ds = map Inr dts \<and>
            out = acc @ map (\<lambda>d. Collection d (ct_waste_type ct) (ct_icon ct)) dts)"
proof (induction ds arbitrary: acc)
  case Nil
  then show ?case by auto
next
  case (Cons d ds)
  show ?case
  proof (cases "parse_collection_date d")
    case (Inl e)
    then show ?thesis by (auto simp: Cons_eq_map_conv)
  next
    case (Inr dt)
    then show ?thesis by (auto simp: Cons Cons_eq_map_conv)
  qed
qed



lemma date_loop_all2:
  assumes "date_loop ct ds acc = Inr out"
    and "subscript r ''bin_type'' = Inr bt" and "collection_type_of bt = Inr ct"
  shows "\<exists>new. out = acc @ new \<and> list_all2 emitted_from new (map (Pair r) ds)"
proof -
  from assms(1) obtain dts where
    d: "map parse_collection_date ds = map Inr dts"
    and o: "out = acc @ map (\<lambda>d. Collection d (ct_waste_type ct) (ct_icon ct)) dts"
    by (auto simp: date_loop_Inr)
  from d have "list_all2 (\<lambda>dt s. parse_collection_date s = Inr dt) dts ds"
    by (induction ds arbitrary: dts) (auto simp: Cons_eq_map_conv)
  then have "list_all2 emitted_from
      (map (\<lambda>d. Collection d (ct_waste_type ct) (ct_icon ct)) dts) (map (Pair r) ds)"
    by (induction rule: list_all2_induct) (auto simp: emitted_from_def assms(2,3))
  with o show ?thesis by blast
qed

lemma result_loop_pairs:
  "result_loop rs acc = Inr out \<Longrightarrow>
     \<exists>new. out = acc @ new \<and> list_all2 emitted_from new (entry_date_pairs rs)"
proof (induction rs arbitrary: acc)
  case Nil
  then show ?case by (simp add: entry_date_pairs_def)
next
  case (Cons r rs)
  from Cons.prems obtain bt ct ds mid where
    bt: "subscript r ''bin_type'' = Inr bt" and ct: "collection_type_of bt = Inr ct"
    and ds: "date_list r = Inr ds" and mid: "date_loop ct ds acc = Inr mid"
    and rest: "result_loop rs mid = Inr out"
    by (auto split: sum.splits)
  from date_loop_all2 [OF mid bt ct] obtain n1 where
    n1: "mid = acc @ n1" "list_all2 emitted_from n1 (map (Pair r) ds)" by blast
  from Cons.IH [OF rest] obtain n2 where
    n2: "out = mid @ n2" "list_all2 emitted_from n2 (entry_date_pairs rs)" by blast
  have "ds = spec_date_list r" using ds by (rule date_list_spec)
  with n1 n2 have "out = acc @ (n1 @ n2)"
    "list_all2 emitted_from (n1 @ n2) (entry_date_pairs (r # rs))"
    by (auto simp: entry_date_pairs_def intro: list_all2_appendI)
  then show ?case by blast
qed

lemma lbbd_fetch_pairs:
  assumes "lbbd_fetch body = Inr cs"
  shows "\<exists>results rs. subscript body ''results'' = Inr results \<and> py_iter results = Inr rs \<and>
           list_all2 emitted_from cs (entry_date_pairs rs)"
proof -
  from assms obtain results rs where
    r: "subscript body ''results'' = Inr results" "py_iter results = Inr rs"
    and l: "result_loop rs [] = Inr cs"
    by (auto simp: lbbd_fetch_def split: sum.splits)
  from result_loop_pairs [OF l] have "list_all2 emitted_from cs (entry_date_pairs rs)" by simp
  with r show ?thesis by blast
qed

lemma date_loop_total:
  "list_all (\<lambda>d. isl (parse_collection_date d) = False) ds \<Longrightarrow> \<exists>out. date_loop ct ds acc = Inr out"
proof (induction ds arbitrary: acc)
  case Nil
  then show ?case by simp
next
  case (Cons d ds)
  then obtain dt where "parse_collection_date d = Inr dt"
    by (cases "parse_collection_date d") auto
  with Cons show ?case by simp
qed

lemma result_loop_total:
  "list_all entry_ok rs \<Longrightarrow> \<exists>out. result_loop rs acc = Inr out"
proof (induction rs arbitrary: acc)
  case Nil
  then show ?case by simp
next
  case (Cons r rs)
  then have ok: "entry_ok r" and rest: "list_all entry_ok rs" by simp_all
  from ok obtain bt ct ds where
    bt: "subscript r ''bin_type'' = Inr bt" and ct: "collection_type_of bt = Inr ct"
    and ds: "date_list r = Inr ds"
    by (auto simp: entry_ok_def isl_def split: sum.splits)
      (metis sum.exhaust)+
  from ds have "ds = spec_date_list r" by (rule date_list_spec)
  with ok have "list_all (\<lambda>d. isl (parse_collection_date d) = False) ds"
    by (simp add: entry_ok_def)
  from date_loop_total [OF this] obtain mid where "date_loop ct ds acc = Inr mid" by blast
  moreover from Cons.IH [OF rest] obtain out where "result_loop rs mid = Inr out" by blast
  ultimately show ?case using bt ct ds by simp
qed

section \<open>Barking and Dagenham: the claims\<close>

text \<open>The definitions that evaluate \<^verbatim>\<open>strptime\<close> and \<^verbatim>\<open>fetch\<close> on a given input.\<close>

lemmas strptime_eval =
  strptime_def f_weekday_def f_month_def lower_def lower_char_def match_space_def is_space_def
  match_day_def digit_of_def match_year_def make_date_def days_in_month_def is_leap_def

lemmas lbbd_eval = lbbd_fetch_def date_list_def COLLECTION_MAP_def strptime_eval

text \<open>
  Claim C1. For the body whose \<^verbatim>\<open>results\<close> hold the one entry of bin type
  \<^verbatim>\<open>Grey-Household\<close> with next collection \<^verbatim>\<open>Monday 01 January 2024\<close> and future
  collection \<^verbatim>\<open>Monday 08 January 2024\<close>, \<^verbatim>\<open>fetch\<close> returns exactly two records, dated
  2024-01-01 and 2024-01-08, both of type \<^verbatim>\<open>General waste\<close> with icon
  \<^verbatim>\<open>mdi:trash-can\<close>. For every body, the records returned stand one to one, in order,
  for the (entry, date) pairs: entries in the order of \<^verbatim>\<open>results\<close>, the dates of an
  entry with \<^verbatim>\<open>nextcollection\<close> first and \<^verbatim>\<open>futurecollections\<close> after it. And
  \<^verbatim>\<open>fetch\<close> does return where every entry is accepted.
\<close>

theorem lbbd_fetch_entry_date_pairs:
  "lbbd_fetch (JObj [(''results'', JArr [JObj
       [(''bin_type'', JStr ''Grey-Household''),
        (''nextcollection'', JStr ''Monday 01 January 2024''),
        (''futurecollections'', JArr [JStr ''Monday 08 January 2024''])]])])
     = Inr [Collection (Date 2024 1 1) (JStr ''General waste'') (Some ''mdi:trash-can''),
            Collection (Date 2024 1 8) (JStr ''General waste'') (Some ''mdi:trash-can'')]
   \<and> (lbbd_fetch body = Inr cs \<longrightarrow>
        (\<exists>results rs. subscript body ''results'' = Inr results \<and> py_iter results = Inr rs \<and>
           list_all2 emitted_from cs (entry_date_pairs rs)))
   \<and> (subscript body ''results'' = Inr (JArr rs) \<and> list_all entry_ok rs \<longrightarrow>
        (\<exists>cs. lbbd_fetch body = Inr cs))"
proof (intro conjI impI)
  show "lbbd_fetch (JObj [(''results'', JArr [JObj
       [(''bin_type'', JStr ''Grey-Household''),
        (''nextcollection'', JStr ''Monday 01 January 2024''),
        (''futurecollections'', JArr [JStr ''Monday 08 January 2024''])]])])
     = Inr [Collection (Date 2024 1 1) (JStr ''General waste'') (Some ''mdi:trash-can''),
            Collection (Date 2024 1 8) (JStr ''General waste'') (Some ''mdi:trash-can'')]"
    by (simp add: lbbd_eval)
next
  assume "lbbd_fetch body = Inr cs"
  then show "\<exists>results rs. subscript body ''results'' = Inr results \<and> py_iter results = Inr rs \<and>
           list_all2 emitted_from cs (entry_date_pairs rs)"
    by (rule lbbd_fetch_pairs)
next
  assume a: "subscript body ''results'' = Inr (JArr rs) \<and> list_all entry_ok rs"
  then obtain out where "result_loop rs [] = Inr out"
    using result_loop_total by blast
  with a show "\<exists>cs. lbbd_fetch body = Inr cs"
    by (simp add: lbbd_fetch_def)
qed

text \<open>The theorem at a body of two entries, one of them without a next collection.\<close>

theorem lbbd_fetch_entry_date_pairs_witness:
  "lbbd_fetch (JObj [(''results'', JArr [JObj
       [(''bin_type'', JStr ''Green-Garden''),
        (''nextcollection'', JStr ''Friday 05 July 2024''),
        (''futurecollections'', JArr [])],
       JObj
       [(''bin_type'', JStr ''Brown-Recycling''),
        (''nextcollection'', JNull),
        (''futurecollections'', JArr [JStr ''Tuesday 09 July 2024''])]])])
     = Inr [Collection (Date 2024 7 5) (JStr ''Garden waste'') (Some ''mdi:grass''),
            Collection (Date 2024 7 9) (JStr ''Recycling'') (Some ''mdi:recycle'')]
   \<and> list_all2 emitted_from
        [Collection (Date 2024 7 5) (JStr ''Garden waste'') (Some ''mdi:grass''),
         Collection (Date 2024 7 9) (JStr ''Recycling'') (Some ''mdi:recycle'')]
        (entry_date_pairs [JObj
       [(''bin_type'', JStr ''Green-Garden''),
        (''nextcollection'', JStr ''Friday 05 July 2024''),
        (''futurecollections'', JArr [])],
       JObj
       [(''bin_type'', JStr ''Brown-Recycling''),
        (''nextcollection'', JNull),
        (''futurecollections'', JArr [JStr ''Tuesday 09 July 2024''])]])
   \<and> list_all entry_ok [JObj
       [(''bin_type'', JStr ''Green-Garden''),
        (''nextcollection'', JStr ''Friday 05 July 2024''),
        (''futurecollections'', JArr [])],
       JObj
       [(''bin_type'', JStr ''Brown-Recycling''),
        (''nextcollection'', JNull),
        (''futurecollections'', JArr [JStr ''Tuesday 09 July 2024''])]]"
proof -
  let ?e1 = "JObj [(''bin_type'', JStr ''Green-Garden''),
        (''nextcollection'', JStr ''Friday 05 July 2024''),
        (''futurecollections'', JArr [])]"
  let ?e2 = "JObj [(''bin_type'', JStr ''Brown-Recycling''),
        (''nextcollection'', JNull),
        (''futurecollections'', JArr [JStr ''Tuesday 09 July 2024''])]"
  let ?body = "JObj [(''results'', JArr [?e1, ?e2])]"
  let ?cs = "[Collection (Date 2024 7 5) (JStr ''Garden waste'') (Some ''mdi:grass''),
            Collection (Date 2024 7 9) (JStr ''Recycling'') (Some ''mdi:recycle'')]"
  have ok: "list_all entry_ok [?e1, ?e2]"
    by (simp add: entry_ok_def spec_date_list_def lbbd_eval)
  have sub: "subscript ?body ''results'' = Inr (JArr [?e1, ?e2])" by simp
  from lbbd_fetch_entry_date_pairs [of ?body _ "[?e1, ?e2]"] sub ok
  obtain cs where cs: "lbbd_fetch ?body = Inr cs" by blast
  have f: "lbbd_fetch ?body = Inr ?cs" by (simp add: lbbd_eval)
  from lbbd_fetch_entry_date_pairs [of ?body ?cs] f
  obtain results rs where
    "subscript ?body ''results'' = Inr results" "py_iter results = Inr rs"
    "list_all2 emitted_from ?cs (entry_date_pairs rs)" by blast
  then have "list_all2 emitted_from ?cs (entry_date_pairs [?e1, ?e2])" by auto
  with f ok show ?thesis by blast
qed

text \<open>
  Claim C9. For every result entry whose \<^verbatim>\<open>nextcollection\<close> is false as a truth value
  (empty string, \<open>None\<close>, \<open>False\<close>, ...), the date list of the entry is exactly its
  \<^verbatim>\<open>futurecollections\<close> array: the records that the entry gives stand one to one for
  the future collections, and none stands for the next collection.
\<close>

theorem falsy_nextcollection_adds_no_date:
  assumes "subscript result ''nextcollection'' = Inr nc"
    and "\<not> truthy nc"
    and "subscript result ''futurecollections'' = Inr (JArr fs)"
  shows "date_list result = Inr fs \<and>
         (result_loop [result] [] = Inr cs \<longrightarrow>
            list_all2 (\<lambda>c d. parse_collection_date d = Inr (coll_date c)) cs fs)"
proof (intro conjI impI)
  show dl: "date_list result = Inr fs"
    using assms by (simp add: date_list_def)
  assume "result_loop [result] [] = Inr cs"
  then obtain ct where "date_loop ct fs [] = Inr cs"
    using dl by (auto split: sum.splits)
  then obtain dts where
    d: "map parse_collection_date fs = map Inr dts"
    and c: "cs = map (\<lambda>d. Collection d (ct_waste_type ct) (ct_icon ct)) dts"
    by (auto simp: date_loop_Inr)
  from d have "list_all2 (\<lambda>dt s. parse_collection_date s = Inr dt) dts fs"
    by (induction fs arbitrary: dts) (auto simp: Cons_eq_map_conv)
  then show "list_all2 (\<lambda>c d. parse_collection_date d = Inr (coll_date c)) cs fs"
    unfolding c by (induction rule: list_all2_induct) auto
qed

text \<open>The theorem at an entry whose next collection is the empty string.\<close>

theorem falsy_nextcollection_adds_no_date_witness:
  "subscript (JObj [(''bin_type'', JStr ''Brown-Recycling''), (''nextcollection'', JStr ''''),
       (''futurecollections'', JArr [JStr ''Tuesday 09 July 2024''])]) ''nextcollection'' = Inr (JStr '''')
   \<and> \<not> truthy (JStr '''')
   \<and> date_list (JObj [(''bin_type'', JStr ''Brown-Recycling''), (''nextcollection'', JStr ''''),
       (''futurecollections'', JArr [JStr ''Tuesday 09 July 2024''])]) = Inr [JStr ''Tuesday 09 July 2024'']
   \<and> result_loop [JObj [(''bin_type'', JStr ''Brown-Recycling''), (''nextcollection'', JStr ''''),
       (''futurecollections'', JArr [JStr ''Tuesday 09 July 2024''])]] []
       = Inr [Collection (Date 2024 7 9) (JStr ''Recycling'') (Some ''mdi:recycle'')]
   \<and> list_all2 (\<lambda>c d. parse_collection_date d = Inr (coll_date c))
        [Collection (Date 2024 7 9) (JStr ''Recycling'') (Some ''mdi:recycle'')]
        [JStr ''Tuesday 09 July 2024'']"
proof -
  let ?r = "JObj [(''bin_type'', JStr ''Brown-Recycling''), (''nextcollection'', JStr ''''),
       (''futurecollections'', JArr [JStr ''Tuesday 09 July 2024''])]"
  let ?cs = "[Collection (Date 2024 7 9) (JStr ''Recycling'') (Some ''mdi:recycle'')]"
  have a: "subscript ?r ''nextcollection'' = Inr (JStr '''')" by simp
  have b: "\<not> truthy (JStr '''')" by simp
  have c: "subscript ?r ''futurecollections'' = Inr (JArr [JStr ''Tuesday 09 July 2024''])" by simp
  have r: "result_loop [?r] [] = Inr ?cs" by (simp add: lbbd_eval)
  from falsy_nextcollection_adds_no_date [OF a b c, of ?cs] r a b show ?thesis by blast
qed




section \<open>Woollahra: the retry helper\<close>

declare retry_loop.simps [simp del]
declare str_nat.simps [simp del]

lemma gets_snoc_get [simp]: "gets (w @ [Get u]) = Suc (gets w)"
  by (simp add: gets_def)

lemma gets_snoc_sleep [simp]: "gets (w @ [Sleep n]) = gets w"
  by (simp add: gets_def)

lemma retry_loop_exhausted:
  "\<not> a < m \<Longrightarrow>
     retry_loop up u m a w =
       (Inl (Raise RequestException ''Max retries exceeded while fetching URL''), w)"
  by (subst retry_loop.simps) simp

lemma retry_loop_ok:
  "a < m \<Longrightarrow> up (gets w) u = Response r \<Longrightarrow> status_code r = 200 \<Longrightarrow>
     retry_loop up u m a w = (Inr r, w @ [Get u])"
  by (subst retry_loop.simps) (simp add: session_get_def)

lemma retry_loop_403:
  "a < m - 1 \<Longrightarrow> up (gets w) u = Response r \<Longrightarrow> status_code r = 403 \<Longrightarrow>
     retry_loop up u m a w = retry_loop up u m (a + 1) (w @ [Get u, Sleep (2 ^ nat a)])"
  by (subst retry_loop.simps) (simp add: session_get_def sleep_def)

lemma retry_loop_failed:
  "a < m \<Longrightarrow> up (gets w) u = Response r \<Longrightarrow> status_code r \<noteq> 200 \<Longrightarrow>
   status_code r \<noteq> 403 \<or> \<not> a < m - 1 \<Longrightarrow>
     retry_loop up u m a w =
       (Inl (Raise Exception (''Failed to fetch: '' @ str_int (status_code r) @
          '' (attempt '' @ str_int (a + 1) @ '')'')), w @ [Get u])"
  by (subst retry_loop.simps) (auto simp: session_get_def)

lemma retry_loop_network_last:
  "a < m \<Longrightarrow> up (gets w) u = RequestFailed msg \<Longrightarrow> a = m - 1 \<Longrightarrow>
     retry_loop up u m a w = (Inl (Raise Exception (''Network error: '' @ msg)), w @ [Get u])"
  by (subst retry_loop.simps) (simp add: session_get_def)

lemma retry_loop_network_retry:
  "a < m \<Longrightarrow> up (gets w) u = RequestFailed msg \<Longrightarrow> a \<noteq> m - 1 \<Longrightarrow>
     retry_loop up u m a w = retry_loop up u m (a + 1) (w @ [Get u, Sleep (2 ^ nat a)])"
  by (subst retry_loop.simps) (simp add: session_get_def sleep_def)

text \<open>One step of the loop: it ends with the events of one request, or goes on.\<close>

lemma retry_loop_step:
  "(\<exists>res. retry_loop up u m a w = (res, w) \<and> \<not> a < m \<and>
        res = Inl (Raise RequestException ''Max retries exceeded while fetching URL'')) \<or>
   (\<exists>r. retry_loop up u m a w = (Inr r, w @ [Get u]) \<and> status_code r = 200) \<or>
   (\<exists>x. retry_loop up u m a w = (Inl (Raise Exception (''Failed to fetch: '' @ x)), w @ [Get u])) \<or>
   (\<exists>x. retry_loop up u m a w = (Inl (Raise Exception (''Network error: '' @ x)), w @ [Get u])) \<or>
   (a < m - 1 \<and>
      retry_loop up u m a w = retry_loop up u m (a + 1) (w @ [Get u, Sleep (2 ^ nat a)]))"
proof (cases "a < m")
  case False
  then show ?thesis by (simp add: retry_loop_exhausted)
next
  case True
  show ?thesis
  proof (cases "up (gets w) u")
    case (Response r)
    consider "status_code r = 200" | "status_code r = 403" "a < m - 1"
      | "status_code r \<noteq> 200" "status_code r \<noteq> 403 \<or> \<not> a < m - 1" by auto
    then show ?thesis
    proof cases
      case 1
      with True Response show ?thesis by (simp add: retry_loop_ok)
    next
      case 2
      with True Response show ?thesis by (simp add: retry_loop_403)
    next
      case 3
      with True Response retry_loop_failed [of a m up w u r] show ?thesis by simp
    qed
  next
    case (RequestFailed msg)
    show ?thesis
    proof (cases "a = m - 1")
      case True
      with \<open>a < m\<close> RequestFailed retry_loop_network_last [of a m up w u msg]
      show ?thesis by simp
    next
      case False
      with \<open>a < m\<close> have "a < m - 1" by simp
      with \<open>a < m\<close> RequestFailed False retry_loop_network_retry [of a m up w u msg]
      show ?thesis by simp
    qed
  qed
qed

lemma retry_loop_induct_aux:
  assumes stop: "\<And>a w. \<not> (a < m - 1 \<and>
      retry_loop up u m a w = retry_loop up u m (a + 1) (w @ [Get u, Sleep (2 ^ nat a)])) \<Longrightarrow> P a w"
    and step: "\<And>a w. a < m - 1 \<Longrightarrow>
      retry_loop up u m a w = retry_loop up u m (a + 1) (w @ [Get u, Sleep (2 ^ nat a)]) \<Longrightarrow>
      P (a + 1) (w @ [Get u, Sleep (2 ^ nat a)]) \<Longrightarrow> P a w"
  shows "P a w"
proof -
  have "\<forall>b v. nat (m - b) = n \<longrightarrow> P b v" for n
  proof (induction n rule: less_induct)
    case (less n)
    show ?case
    proof (intro allI impI)
      fix b v
      assume n: "nat (m - b) = n"
      show "P b v"
      proof (cases "b < m - 1 \<and>
          retry_loop up u m b v = retry_loop up u m (b + 1) (v @ [Get u, Sleep (2 ^ nat b)])")
        case False
        then show ?thesis by (rule stop)
      next
        case True
        with n have "nat (m - (b + 1)) < n" by auto
        with less.IH have "P (b + 1) (v @ [Get u, Sleep (2 ^ nat b)])" by blast
        with True show ?thesis by (auto intro: step)
      qed
    qed
  qed
  then show ?thesis by blast
qed

lemma retry_loop_200:
  "retry_loop up u m a w = (Inr r, w') \<Longrightarrow> status_code r = 200"
proof (induction a w rule: retry_loop_induct_aux [where m = m and up = up and u = u])
  case (1 a w)
  with retry_loop_step [of up u m a w] show ?case by auto
next
  case (2 a w)
  then show ?case by simp
qed

lemma retry_loop_error:
  "retry_loop up u m a w = (Inl e, w') \<Longrightarrow>
     (\<exists>x. e = Raise Exception (''Failed to fetch: '' @ x)) \<or>
     (\<exists>x. e = Raise Exception (''Network error: '' @ x)) \<or>
     e = Raise RequestException ''Max retries exceeded while fetching URL''"
proof (induction a w rule: retry_loop_induct_aux [where m = m and up = up and u = u])
  case (1 a w)
  with retry_loop_step [of up u m a w] show ?case by auto
next
  case (2 a w)
  then show ?case by simp
qed


lemma gets_snoc_get_sleep [simp]: "gets (w @ [Get u, Sleep n]) = Suc (gets w)"
  by (simp add: gets_def)

text \<open>
  Claim C2. With \<^verbatim>\<open>max_retries = 3\<close>, whenever the first two requests are answered
  with status 403 and the third with status 200, the helper makes exactly three GET
  requests, sleeps \<open>2^0 = 1\<close> second after the first 403 and \<open>2^1 = 2\<close> seconds after the
  second, and returns the response of status 200. And whenever an attempt is answered
  with status 200, the helper returns that response at once, with no further request.
\<close>

theorem retry_403_403_200:
  "(up (gets w) u = Response r1 \<and> status_code r1 = 403 \<and>
    up (Suc (gets w)) u = Response r2 \<and> status_code r2 = 403 \<and>
    up (Suc (Suc (gets w))) u = Response r3 \<and> status_code r3 = 200 \<longrightarrow>
      make_request_with_retry up u 3 w =
        (Inr r3, w @ [Get u, Sleep 1, Get u, Sleep 2, Get u]))
   \<and> (attempt < max_retries \<and> up (gets w) u = Response r \<and> status_code r = 200 \<longrightarrow>
      retry_loop up u max_retries attempt w = (Inr r, w @ [Get u]))"
proof (intro conjI impI)
  assume a: "up (gets w) u = Response r1 \<and> status_code r1 = 403 \<and>
    up (Suc (gets w)) u = Response r2 \<and> status_code r2 = 403 \<and>
    up (Suc (Suc (gets w))) u = Response r3 \<and> status_code r3 = 200"
  let ?w1 = "w @ [Get u, Sleep 1]"
  let ?w2 = "?w1 @ [Get u, Sleep 2]"
  have g: "gets ?w1 = Suc (gets w)" "gets ?w2 = Suc (Suc (gets w))"
    by (simp_all add: gets_def)
  have "retry_loop up u 3 0 w = retry_loop up u 3 1 ?w1"
    using a retry_loop_403 [of 0 3 up w u r1] by simp
  also have "\<dots> = retry_loop up u 3 2 ?w2"
    using a g retry_loop_403 [of 1 3 up ?w1 u r2] by simp
  also have "\<dots> = (Inr r3, ?w2 @ [Get u])"
    using a g retry_loop_ok [of 2 3 up ?w2 u r3] by simp
  finally show "make_request_with_retry up u 3 w =
        (Inr r3, w @ [Get u, Sleep 1, Get u, Sleep 2, Get u])"
    by (simp add: make_request_with_retry_def)
next
  assume "attempt < max_retries \<and> up (gets w) u = Response r \<and> status_code r = 200"
  then show "retry_loop up u max_retries attempt w = (Inr r, w @ [Get u])"
    by (simp add: retry_loop_ok)
qed

text \<open>The theorem at an upstream that refuses the first two requests.\<close>

theorem retry_403_403_200_witness:
  "make_request_with_retry
     (\<lambda>n u. if n < 2 then Response \<lparr>status_code = 403, response_text = ''Forbidden''\<rparr>
             else Response \<lparr>status_code = 200, response_text = ''ok''\<rparr>)
     (AddressSearch ''22 Oxford Street'') 3 []
   = (Inr \<lparr>status_code = 200, response_text = ''ok''\<rparr>,
      [Get (AddressSearch ''22 Oxford Street''), Sleep 1,
       Get (AddressSearch ''22 Oxford Street''), Sleep 2,
       Get (AddressSearch ''22 Oxford Street'')])
   \<and> retry_loop (\<lambda>n u. Response \<lparr>status_code = 200, response_text = ''ok''\<rparr>) MainPage 3 1
        [Get MainPage, Sleep 1]
      = (Inr \<lparr>status_code = 200, response_text = ''ok''\<rparr>, [Get MainPage, Sleep 1, Get MainPage])"
proof -
  let ?up = "\<lambda>n (u::url). if n < (2::nat) then Response \<lparr>status_code = 403, response_text = ''Forbidden''\<rparr>
             else Response \<lparr>status_code = 200, response_text = ''ok''\<rparr>"
  let ?u = "AddressSearch ''22 Oxford Street''"
  have "?up (gets []) ?u = Response \<lparr>status_code = 403, response_text = ''Forbidden''\<rparr> \<and>
    status_code \<lparr>status_code = 403, response_text = ''Forbidden''\<rparr> = 403 \<and>
    ?up (Suc (gets [])) ?u = Response \<lparr>status_code = 403, response_text = ''Forbidden''\<rparr> \<and>
    status_code \<lparr>status_code = 403, response_text = ''Forbidden''\<rparr> = 403 \<and>
    ?up (Suc (Suc (gets []))) ?u = Response \<lparr>status_code = 200, response_text = ''ok''\<rparr> \<and>
    status_code \<lparr>status_code = 200, response_text = ''ok''\<rparr> = 200"
    by (simp add: gets_def)
  with retry_403_403_200 [where up = ?up and w = "[]" and u = ?u]
  have one: "make_request_with_retry ?up ?u 3 [] =
      (Inr \<lparr>status_code = 200, response_text = ''ok''\<rparr>, [] @ [Get ?u, Sleep 1, Get ?u, Sleep 2, Get ?u])"
    by blast
  have "(1::int) < 3 \<and>
     (\<lambda>n u. Response \<lparr>status_code = 200, response_text = ''ok''\<rparr>) (gets [Get MainPage, Sleep 1]) MainPage
        = Response \<lparr>status_code = 200, response_text = ''ok''\<rparr> \<and>
     status_code \<lparr>status_code = 200, response_text = ''ok''\<rparr> = 200"
    by (simp add: gets_def)
  with retry_403_403_200 [where attempt = 1 and max_retries = 3
      and up = "\<lambda>n u. Response \<lparr>status_code = 200, response_text = ''ok''\<rparr>"
      and w = "[Get MainPage, Sleep 1]" and u = MainPage
      and r = "\<lparr>status_code = 200, response_text = ''ok''\<rparr>"]
  have two: "retry_loop (\<lambda>n u. Response \<lparr>status_code = 200, response_text = ''ok''\<rparr>) MainPage 3 1
        [Get MainPage, Sleep 1]
      = (Inr \<lparr>status_code = 200, response_text = ''ok''\<rparr>, [Get MainPage, Sleep 1] @ [Get MainPage])"
    by blast
  from one two show ?thesis by simp
qed

text \<open>
  Claim C3. For every response whose status is neither 200 nor 403, and for a 403 on
  the last attempt, the helper fails at once with an error whose message gives the
  status code and the number of the attempt, and makes no further request. Where the
  loop ends without a return or a raise, the helper fails with "Max retries exceeded".
\<close>

theorem retry_fails_at_once:
  "(attempt < max_retries \<and> up (gets w) u = Response r \<and> status_code r \<noteq> 200 \<and>
      (status_code r \<noteq> 403 \<or> attempt = max_retries - 1) \<longrightarrow>
      retry_loop up u max_retries attempt w =
        (Inl (Raise Exception (''Failed to fetch: '' @ str_int (status_code r) @
           '' (attempt '' @ str_int (attempt + 1) @ '')'')), w @ [Get u]))
   \<and> (\<not> attempt < max_retries \<longrightarrow>
      retry_loop up u max_retries attempt w =
        (Inl (Raise RequestException ''Max retries exceeded while fetching URL''), w))
   \<and> (max_retries \<le> 0 \<longrightarrow>
      make_request_with_retry up u max_retries w =
        (Inl (Raise RequestException ''Max retries exceeded while fetching URL''), w))"
proof (intro conjI impI)
  assume a: "attempt < max_retries \<and> up (gets w) u = Response r \<and> status_code r \<noteq> 200 \<and>
      (status_code r \<noteq> 403 \<or> attempt = max_retries - 1)"
  then have "status_code r \<noteq> 403 \<or> \<not> attempt < max_retries - 1" by auto
  with a retry_loop_failed [of attempt max_retries up w u r]
  show "retry_loop up u max_retries attempt w =
        (Inl (Raise Exception (''Failed to fetch: '' @ str_int (status_code r) @
           '' (attempt '' @ str_int (attempt + 1) @ '')'')), w @ [Get u])"
    by blast
next
  assume "\<not> attempt < max_retries"
  then show "retry_loop up u max_retries attempt w =
        (Inl (Raise RequestException ''Max retries exceeded while fetching URL''), w)"
    by (rule retry_loop_exhausted)
next
  assume "max_retries \<le> 0"
  then have "\<not> 0 < max_retries" by simp
  then show "make_request_with_retry up u max_retries w =
        (Inl (Raise RequestException ''Max retries exceeded while fetching URL''), w)"
    unfolding make_request_with_retry_def by (rule retry_loop_exhausted)
qed

text \<open>The definitions that evaluate \<^verbatim>\<open>str\<close> on a given number.\<close>

lemmas str_int_eval = str_int_def str_nat.simps digit_char_def

text \<open>The theorem at status 500, at a 403 on the third attempt and at an empty loop.\<close>

theorem retry_fails_at_once_witness:
  "retry_loop (\<lambda>n u. Response \<lparr>status_code = 500, response_text = ''''\<rparr>) MainPage 3 0 []
     = (Inl (Raise Exception ''Failed to fetch: 500 (attempt 1)''), [Get MainPage])
   \<and> retry_loop (\<lambda>n u. Response \<lparr>status_code = 403, response_text = ''''\<rparr>) MainPage 3 2
       [Get MainPage, Sleep 1, Get MainPage, Sleep 2]
     = (Inl (Raise Exception ''Failed to fetch: 403 (attempt 3)''),
        [Get MainPage, Sleep 1, Get MainPage, Sleep 2, Get MainPage])
   \<and> retry_loop (\<lambda>n u. Response \<lparr>status_code = 200, response_text = ''''\<rparr>) MainPage 3 3 []
     = (Inl (Raise RequestException ''Max retries exceeded while fetching URL''), [])
   \<and> make_request_with_retry (\<lambda>n u. Response \<lparr>status_code = 200, response_text = ''''\<rparr>) MainPage 0 []
     = (Inl (Raise RequestException ''Max retries exceeded while fetching URL''), [])"
proof -
  let ?r5 = "\<lparr>status_code = 500, response_text = ''''\<rparr>"
  let ?r4 = "\<lparr>status_code = 403, response_text = ''''\<rparr>"
  let ?r2 = "\<lparr>status_code = 200, response_text = ''''\<rparr>"
  have s: "str_int 500 = ''500''" "str_int 403 = ''403''" "str_int 1 = ''1''" "str_int 3 = ''3''"
    by (simp_all add: str_int_eval)
  have "(0::int) < 3 \<and> (\<lambda>n u. Response ?r5) (gets []) MainPage = Response ?r5 \<and>
      status_code ?r5 \<noteq> 200 \<and> (status_code ?r5 \<noteq> 403 \<or> (0::int) = 3 - 1)"
    by (simp add: gets_def)
  with retry_fails_at_once [where attempt = 0 and max_retries = 3
      and up = "\<lambda>n u. Response ?r5" and w = "[]" and u = MainPage and r = ?r5]
  have one: "retry_loop (\<lambda>n u. Response ?r5) MainPage 3 0 []
     = (Inl (Raise Exception ''Failed to fetch: 500 (attempt 1)''), [Get MainPage])"
    by (simp add: s)
  have "(2::int) < 3 \<and>
      (\<lambda>n u. Response ?r4) (gets [Get MainPage, Sleep 1, Get MainPage, Sleep 2]) MainPage = Response ?r4 \<and>
      status_code ?r4 \<noteq> 200 \<and> (status_code ?r4 \<noteq> 403 \<or> (2::int) = 3 - 1)"
    by (simp add: gets_def)
  with retry_fails_at_once [where attempt = 2 and max_retries = 3
      and up = "\<lambda>n u. Response ?r4"
      and w = "[Get MainPage, Sleep 1, Get MainPage, Sleep 2]" and u = MainPage and r = ?r4]
  have two: "retry_loop (\<lambda>n u. Response ?r4) MainPage 3 2
       [Get MainPage, Sleep 1, Get MainPage, Sleep 2]
     = (Inl (Raise Exception ''Failed to fetch: 403 (attempt 3)''),
        [Get MainPage, Sleep 1, Get MainPage, Sleep 2, Get MainPage])"
    by (simp add: s)
  have "\<not> (3::int) < 3" by simp
  with retry_fails_at_once [where attempt = 3 and max_retries = 3
      and up = "\<lambda>n u. Response ?r2" and w = "[]" and u = MainPage]
  have three: "retry_loop (\<lambda>n u. Response ?r2) MainPage 3 3 []
     = (Inl (Raise RequestException ''Max retries exceeded while fetching URL''), [])"
    by blast
  have "(0::int) \<le> 0" by simp
  with retry_fails_at_once [where max_retries = 0
      and up = "\<lambda>n u. Response ?r2" and w = "[]" and u = MainPage]
  have four: "make_request_with_retry (\<lambda>n u. Response ?r2) MainPage 0 []
     = (Inl (Raise RequestException ''Max retries exceeded while fetching URL''), [])"
    by blast
  from one two three four show ?thesis by blast
qed

section \<open>Woollahra: the result blocks\<close>

lemma service_loop_step:
  "service_loop L (b # bs) acc =
     (case heading b of
        None \<Rightarrow> service_loop L bs acc
      | Some h \<Rightarrow>
     (case next_service b of
        None \<Rightarrow> service_loop L bs acc
      | Some t \<Rightarrow>
     (case dateutil_parse L (strip t) of
        Inr d \<Rightarrow>
          service_loop L bs
            (acc @ [Collection d (JStr (normalize (strip h))) (Some (icon_of (normalize (strip h))))])
      | Inl cls \<Rightarrow>
          if cls = ParserError \<or> cls = OverflowError then service_loop L bs acc
          else Inl (Builtin cls))))"
  by (simp add: parse_date_def Let_def split: option.splits sum.splits)



lemma service_loop_error: "service_loop L bs acc = Inl e \<Longrightarrow> \<exists>cls. e = Builtin cls"
proof (induction bs arbitrary: acc)
  case Nil
  then show ?case by simp
next
  case (Cons b bs)
  from Cons.prems show ?case
    unfolding service_loop_step
    by (auto split: option.splits sum.splits if_splits dest: Cons.IH)
qed



text \<open>
  The loop tests the stripped heading; the words it looks for hold no whitespace, so the
  test is one on the heading text as it stands.
\<close>

lemma py_in_sublist: "py_in sub s \<longleftrightarrow> sublist sub s"
  by (induction s) (auto simp: sublist_Cons_right)

lemma sublist_dropWhile:
  assumes "sub \<noteq> []" and "\<forall>c \<in> set sub. \<not> P c"
  shows "sublist sub (dropWhile P s) \<longleftrightarrow> sublist sub s"
proof (induction s)
  case Nil
  then show ?case by simp
next
  case (Cons c cs)
  show ?case
  proof (cases "P c")
    case True
    with assms have "\<not> prefix sub (c # cs)"
      by (cases sub) auto
    with True Cons show ?thesis by (simp add: sublist_Cons_right)
  next
    case False
    then show ?thesis by simp
  qed
qed

lemma sublist_strip:
  assumes "sub \<noteq> []" and "\<forall>c \<in> set sub. \<not> is_space c"
  shows "sublist sub (strip s) \<longleftrightarrow> sublist sub s"
proof -
  have r: "rev sub \<noteq> []" "\<forall>c \<in> set (rev sub). \<not> is_space c" using assms by simp_all
  have "sublist sub (strip s) \<longleftrightarrow> sublist (rev sub) (dropWhile is_space (rev (dropWhile is_space s)))"
    unfolding strip_def by (metis sublist_rev rev_rev_ident)
  also have "\<dots> \<longleftrightarrow> sublist (rev sub) (rev (dropWhile is_space s))"
    using r by (rule sublist_dropWhile)
  also have "\<dots> \<longleftrightarrow> sublist sub (dropWhile is_space s)"
    by (rule sublist_rev)
  also have "\<dots> \<longleftrightarrow> sublist sub s"
    using assms by (rule sublist_dropWhile)
  finally show ?thesis .
qed

lemma is_space_lower_char: "is_space (lower_char c) = is_space c"
  by (auto simp: lower_char_def is_space_def split: option.splits if_splits)

lemma lower_dropWhile: "lower (dropWhile is_space s) = dropWhile is_space (lower s)"
  by (induction s) (auto simp: lower_def is_space_lower_char)

lemma lower_rev: "lower (rev s) = rev (lower s)"
  by (simp add: lower_def rev_map)

lemma lower_strip: "lower (strip s) = strip (lower s)"
  by (simp add: strip_def lower_rev lower_dropWhile)

lemma py_in_lower_strip:
  assumes "sub \<noteq> []" and "\<forall>c \<in> set sub. \<not> is_space c"
  shows "py_in sub (lower (strip h)) \<longleftrightarrow> py_in sub (lower h)"
  using sublist_strip [OF assms] by (simp add: py_in_sublist lower_strip)

lemma season_words_in_stripped:
  "py_in ''clean'' (lower (strip h)) = py_in ''clean'' (lower h)"
  "py_in ''spring'' (lower (strip h)) = py_in ''spring'' (lower h)"
  "py_in ''summer'' (lower (strip h)) = py_in ''summer'' (lower h)"
  "py_in ''winter'' (lower (strip h)) = py_in ''winter'' (lower h)"
  by (rule py_in_lower_strip; simp add: is_space_def)+

text \<open>
  Claim C7. For every result block that is emitted and whose heading text contains, in
  any letter case, "clean" and one of "spring", "summer", "winter", the record has the
  label of that season, "Spring Clean-Up", "Summer Clean-Up" or "Winter Clean-Up" (the
  first of the three seasons that the heading contains), and the icon
  \<^verbatim>\<open>mdi:delete-sweep\<close>. In particular the block with the heading "Spring Clean Up
  Service" and the next-service text "15/03/2025", which the date parser reads as
  2025-03-15, gives one record of type "Spring Clean-Up" with that date.
\<close>

theorem seasonal_clean_up_label:
  "(heading b = Some h \<and> next_service b = Some t \<and> dateutil_parse L (strip t) = Inr d \<and>
    py_in ''clean'' (lower h) \<and>
    (py_in ''spring'' (lower h) \<or> py_in ''summer'' (lower h) \<or> py_in ''winter'' (lower h)) \<longrightarrow>
      service_loop L (b # bs) acc =
        service_loop L bs
          (acc @ [Collection d
             (JStr (if py_in ''spring'' (lower h) then ''Spring Clean-Up''
                    else if py_in ''summer'' (lower h) then ''Summer Clean-Up''
                    else ''Winter Clean-Up''))
             (Some ''mdi:delete-sweep'')]))
   \<and> (dateutil_parse L ''15/03/2025'' = Inr (Date 2025 3 15) \<longrightarrow>
      service_loop L
        [\<lparr>heading = Some ''Spring Clean Up Service'', next_service = Some ''15/03/2025''\<rparr>] []
        = Inr [Collection (Date 2025 3 15) (JStr ''Spring Clean-Up'') (Some ''mdi:delete-sweep'')])"
proof (intro conjI impI)
  assume a: "heading b = Some h \<and> next_service b = Some t \<and> dateutil_parse L (strip t) = Inr d \<and>
    py_in ''clean'' (lower h) \<and>
    (py_in ''spring'' (lower h) \<or> py_in ''summer'' (lower h) \<or> py_in ''winter'' (lower h))"
  let ?label = "if py_in ''spring'' (lower h) then ''Spring Clean-Up''
                    else if py_in ''summer'' (lower h) then ''Summer Clean-Up''
                    else ''Winter Clean-Up''"
  from a have n: "normalize (strip h) = ?label"
    unfolding normalize_def season_words_in_stripped by auto
  have i: "icon_of ?label = ''mdi:delete-sweep''"
    by (simp add: icon_of_def ICON_MAP_def CLEANUP_ICON_def)
  from a show "service_loop L (b # bs) acc =
        service_loop L bs (acc @ [Collection d (JStr ?label) (Some ''mdi:delete-sweep'')])"
    unfolding service_loop_step by (simp add: n i del: py_in.simps)
next
  assume a: "dateutil_parse L ''15/03/2025'' = Inr (Date 2025 3 15)"
  have s: "strip ''15/03/2025'' = ''15/03/2025''"
    "strip ''Spring Clean Up Service'' = ''Spring Clean Up Service''"
    by (simp_all add: strip_def is_space_def)
  have n: "normalize ''Spring Clean Up Service'' = ''Spring Clean-Up''"
    by (simp add: normalize_def lower_def lower_char_def prefix_code)
  have i: "icon_of ''Spring Clean-Up'' = ''mdi:delete-sweep''"
    by (simp add: icon_of_def ICON_MAP_def CLEANUP_ICON_def)
  show "service_loop L
        [\<lparr>heading = Some ''Spring Clean Up Service'', next_service = Some ''15/03/2025''\<rparr>] []
        = Inr [Collection (Date 2025 3 15) (JStr ''Spring Clean-Up'') (Some ''mdi:delete-sweep'')]"
    unfolding service_loop_step by (simp add: s a n i)
qed

text \<open>The theorem at the block of the claim and at a heading that names two seasons.\<close>

theorem seasonal_clean_up_label_witness:
  "service_loop
     \<lparr>json_loads = (\<lambda>s. None), find_services = (\<lambda>c. Inr []),
      dateutil_parse = (\<lambda>s. if s = ''15/03/2025'' then Inr (Date 2025 3 15) else Inl ParserError)\<rparr>
     [\<lparr>heading = Some ''Spring Clean Up Service'', next_service = Some ''15/03/2025''\<rparr>] []
     = Inr [Collection (Date 2025 3 15) (JStr ''Spring Clean-Up'') (Some ''mdi:delete-sweep'')]
   \<and> service_loop
     \<lparr>json_loads = (\<lambda>s. None), find_services = (\<lambda>c. Inr []),
      dateutil_parse = (\<lambda>s. if s = ''15/03/2025'' then Inr (Date 2025 3 15) else Inl ParserError)\<rparr>
     [\<lparr>heading = Some '' WINTER / summer cleanup '', next_service = Some ''15/03/2025''\<rparr>] []
     = Inr [Collection (Date 2025 3 15) (JStr ''Summer Clean-Up'') (Some ''mdi:delete-sweep'')]"
proof -
  let ?L = "\<lparr>json_loads = (\<lambda>s. None), find_services = (\<lambda>c. Inr []),
      dateutil_parse = (\<lambda>s. if s = ''15/03/2025'' then Inr (Date 2025 3 15) else Inl ParserError)\<rparr>"
  let ?h = "'' WINTER / summer cleanup ''"
  let ?b = "\<lparr>heading = Some ?h, next_service = Some ''15/03/2025''\<rparr>"
  have p: "dateutil_parse ?L ''15/03/2025'' = Inr (Date 2025 3 15)" by simp
  have s: "strip ''15/03/2025'' = ''15/03/2025''"
    by (simp add: strip_def is_space_def)
  have l: "lower ?h = '' winter / summer cleanup ''"
    by (simp add: lower_def lower_char_def)
  have c: "py_in ''clean'' '' winter / summer cleanup ''"
    "py_in ''summer'' '' winter / summer cleanup ''"
    "py_in ''winter'' '' winter / summer cleanup ''"
    "\<not> py_in ''spring'' '' winter / summer cleanup ''"
    by (simp_all add: prefix_code)
  from seasonal_clean_up_label [where L = ?L] p
  have one: "service_loop ?L
     [\<lparr>heading = Some ''Spring Clean Up Service'', next_service = Some ''15/03/2025''\<rparr>] []
     = Inr [Collection (Date 2025 3 15) (JStr ''Spring Clean-Up'') (Some ''mdi:delete-sweep'')]"
    by blast
  have "heading ?b = Some ?h \<and> next_service ?b = Some ''15/03/2025'' \<and>
    dateutil_parse ?L (strip ''15/03/2025'') = Inr (Date 2025 3 15) \<and>
    py_in ''clean'' (lower ?h) \<and>
    (py_in ''spring'' (lower ?h) \<or> py_in ''summer'' (lower ?h) \<or> py_in ''winter'' (lower ?h))"
    by (simp add: s l c del: py_in.simps)
  with seasonal_clean_up_label [where L = ?L and b = ?b and h = ?h
      and t = "''15/03/2025''" and d = "Date 2025 3 15" and bs = "[]" and acc = "[]"]
  have "service_loop ?L (?b # []) [] =
        service_loop ?L []
          ([] @ [Collection (Date 2025 3 15)
             (JStr (if py_in ''spring'' (lower ?h) then ''Spring Clean-Up''
                    else if py_in ''summer'' (lower ?h) then ''Summer Clean-Up''
                    else ''Winter Clean-Up''))
             (Some ''mdi:delete-sweep'')])"
    by blast
  then have two: "service_loop ?L [?b] [] =
      Inr [Collection (Date 2025 3 15) (JStr ''Summer Clean-Up'') (Some ''mdi:delete-sweep'')]"
    by (simp add: l c del: py_in.simps)
  from one two show ?thesis by blast
qed

text \<open>
  Claim C8. For Barking and Dagenham, every record that comes from an entry whose
  \<^verbatim>\<open>bin_type\<close> is not a key of \<^verbatim>\<open>COLLECTION_MAP\<close> has the raw \<^verbatim>\<open>bin_type\<close> as its
  type and no icon. For Woollahra, every record whose label is not a key of
  \<^verbatim>\<open>ICON_MAP\<close> has the icon \<^verbatim>\<open>mdi:trash-can\<close>.
\<close>

theorem unknown_category_fallback:
  "(lbbd_fetch body = Inr cs \<and> subscript body ''results'' = Inr results \<and>
    py_iter results = Inr rs \<longrightarrow>
      list_all2
        (\<lambda>c p. \<forall>bt. subscript (fst p) ''bin_type'' = Inr bt \<longrightarrow>
                  (\<forall>s. bt = JStr s \<longrightarrow> COLLECTION_MAP s = None) \<longrightarrow>
                  coll_type c = bt \<and> coll_icon c = None)
        cs (entry_date_pairs rs))
   \<and> (heading b = Some h \<and> next_service b = Some t \<and> dateutil_parse L (strip t) = Inr d \<and>
      ICON_MAP (normalize (strip h)) = None \<longrightarrow>
      service_loop L (b # bs) acc =
        service_loop L bs
          (acc @ [Collection d (JStr (normalize (strip h))) (Some ''mdi:trash-can'')]))"
proof (intro conjI impI)
  assume a: "lbbd_fetch body = Inr cs \<and> subscript body ''results'' = Inr results \<and>
    py_iter results = Inr rs"
  with lbbd_fetch_pairs [of body cs]
  have l: "list_all2 emitted_from cs (entry_date_pairs rs)" by auto
  have "emitted_from c p \<Longrightarrow> subscript (fst p) ''bin_type'' = Inr bt \<Longrightarrow>
      (\<forall>s. bt = JStr s \<longrightarrow> COLLECTION_MAP s = None) \<Longrightarrow> coll_type c = bt \<and> coll_icon c = None"
    for c p bt
    by (cases bt) (auto simp: emitted_from_def split: sum.splits)
  then show "list_all2
        (\<lambda>c p. \<forall>bt. subscript (fst p) ''bin_type'' = Inr bt \<longrightarrow>
                  (\<forall>s. bt = JStr s \<longrightarrow> COLLECTION_MAP s = None) \<longrightarrow>
                  coll_type c = bt \<and> coll_icon c = None)
        cs (entry_date_pairs rs)"
    using l by (auto elim!: list_all2_mono)
next
  assume "heading b = Some h \<and> next_service b = Some t \<and> dateutil_parse L (strip t) = Inr d \<and>
      ICON_MAP (normalize (strip h)) = None"
  then show "service_loop L (b # bs) acc =
        service_loop L bs
          (acc @ [Collection d (JStr (normalize (strip h))) (Some ''mdi:trash-can'')])"
    unfolding service_loop_step by (simp add: icon_of_def)
qed

text \<open>The theorem at the bin type "Blue-Glass" and at the heading "Bulky Goods".\<close>

theorem unknown_category_fallback_witness:
  "lbbd_fetch (JObj [(''results'', JArr [JObj
       [(''bin_type'', JStr ''Blue-Glass''),
        (''nextcollection'', JStr ''Friday 05 July 2024''),
        (''futurecollections'', JArr [])]])])
     = Inr [Collection (Date 2024 7 5) (JStr ''Blue-Glass'') None]
   \<and> list_all2
        (\<lambda>c p. \<forall>bt. subscript (fst p) ''bin_type'' = Inr bt \<longrightarrow>
                  (\<forall>s. bt = JStr s \<longrightarrow> COLLECTION_MAP s = None) \<longrightarrow>
                  coll_type c = bt \<and> coll_icon c = None)
        [Collection (Date 2024 7 5) (JStr ''Blue-Glass'') None]
        (entry_date_pairs [JObj
       [(''bin_type'', JStr ''Blue-Glass''),
        (''nextcollection'', JStr ''Friday 05 July 2024''),
        (''futurecollections'', JArr [])]])
   \<and> COLLECTION_MAP ''Blue-Glass'' = None
   \<and> ICON_MAP (normalize (strip ''Bulky Goods'')) = None
   \<and> service_loop
     \<lparr>json_loads = (\<lambda>s. None), find_services = (\<lambda>c. Inr []),
      dateutil_parse = (\<lambda>s. if s = ''15/03/2025'' then Inr (Date 2025 3 15) else Inl ParserError)\<rparr>
     [\<lparr>heading = Some ''Bulky Goods'', next_service = Some ''15/03/2025''\<rparr>] []
     = Inr [Collection (Date 2025 3 15) (JStr ''Bulky Goods'') (Some ''mdi:trash-can'')]"
proof -
  let ?e = "JObj [(''bin_type'', JStr ''Blue-Glass''),
        (''nextcollection'', JStr ''Friday 05 July 2024''),
        (''futurecollections'', JArr [])]"
  let ?body = "JObj [(''results'', JArr [?e])]"
  let ?cs = "[Collection (Date 2024 7 5) (JStr ''Blue-Glass'') None]"
  let ?L = "\<lparr>json_loads = (\<lambda>s. None), find_services = (\<lambda>c. Inr []),
      dateutil_parse = (\<lambda>s. if s = ''15/03/2025'' then Inr (Date 2025 3 15) else Inl ParserError)\<rparr>"
  let ?b = "\<lparr>heading = Some ''Bulky Goods'', next_service = Some ''15/03/2025''\<rparr>"
  have f: "lbbd_fetch ?body = Inr ?cs" by (simp add: lbbd_eval)
  have k: "COLLECTION_MAP ''Blue-Glass'' = None" by (simp add: COLLECTION_MAP_def)
  have "lbbd_fetch ?body = Inr ?cs \<and> subscript ?body ''results'' = Inr (JArr [?e]) \<and>
    py_iter (JArr [?e]) = Inr [?e]"
    using f by simp
  with unknown_category_fallback [where body = ?body and cs = ?cs and results = "JArr [?e]"
      and rs = "[?e]"]
  have one: "list_all2
        (\<lambda>c p. \<forall>bt. subscript (fst p) ''bin_type'' = Inr bt \<longrightarrow>
                  (\<forall>s. bt = JStr s \<longrightarrow> COLLECTION_MAP s = None) \<longrightarrow>
                  coll_type c = bt \<and> coll_icon c = None)
        ?cs (entry_date_pairs [?e])"
    by blast
  have s: "strip ''15/03/2025'' = ''15/03/2025''" "strip ''Bulky Goods'' = ''Bulky Goods''"
    by (simp_all add: strip_def is_space_def)
  have n: "normalize ''Bulky Goods'' = ''Bulky Goods''"
    by (simp add: normalize_def lower_def lower_char_def prefix_code)
  have i: "ICON_MAP ''Bulky Goods'' = None" by (simp add: ICON_MAP_def)
  have "heading ?b = Some ''Bulky Goods'' \<and> next_service ?b = Some ''15/03/2025'' \<and>
      dateutil_parse ?L (strip ''15/03/2025'') = Inr (Date 2025 3 15) \<and>
      ICON_MAP (normalize (strip ''Bulky Goods'')) = None"
    by (simp add: s n i)
  with unknown_category_fallback [where L = ?L and b = ?b and h = "''Bulky Goods''"
      and t = "''15/03/2025''" and d = "Date 2025 3 15" and bs = "[]" and acc = "[]"]
  have "service_loop ?L (?b # []) [] =
        service_loop ?L []
          ([] @ [Collection (Date 2025 3 15) (JStr (normalize (strip ''Bulky Goods''))) (Some ''mdi:trash-can'')])"
    by blast
  then have two: "service_loop ?L [?b] [] =
      Inr [Collection (Date 2025 3 15) (JStr ''Bulky Goods'') (Some ''mdi:trash-can'')]"
    by (simp add: s n)
  from f one k two i s n show ?thesis by simp
qed

section \<open>Woollahra: fetch\<close>

lemma subscript_error: "subscript v k = Inl e \<Longrightarrow> \<exists>cls. e = Builtin cls"
  by (cases v) (auto split: option.splits)

lemma py_get_error: "py_get v k = Inl e \<Longrightarrow> \<exists>cls. e = Builtin cls"
  by (cases v) auto

lemma py_len_error: "py_len v = Inl e \<Longrightarrow> \<exists>cls. e = Builtin cls"
  by (cases v) auto

lemma py_item0_error: "py_item0 v = Inl e \<Longrightarrow> \<exists>cls. e = Builtin cls"
  by (induction v rule: py_item0.induct) auto

lemma find_location_id_error: "find_location_id data = Inl e \<Longrightarrow> \<exists>cls. e = Builtin cls"
  by (auto simp: find_location_id_def split: sum.splits if_splits
      dest: subscript_error py_get_error py_len_error py_item0_error)


lemma make_request_200:
  "make_request_with_retry up u m w = (Inr r, w') \<Longrightarrow> status_code r = 200"
  unfolding make_request_with_retry_def by (rule retry_loop_200)

text \<open>No error of the helper starts like the two messages after its calls.\<close>

lemma make_request_error:
  assumes "make_request_with_retry up u m w = (Inl e, w')"
  shows "\<forall>msg. e = Raise Exception msg \<longrightarrow> take 16 msg \<noteq> ''Unable to access''"
proof -
  from assms have "retry_loop up u m 0 w = (Inl e, w')"
    by (simp add: make_request_with_retry_def)
  from retry_loop_error [OF this] show ?thesis by auto
qed

lemma fetch_services_error:
  assumes "fst (fetch_services L up loc w) = Inl e"
  shows "\<forall>msg. e = Raise Exception msg \<longrightarrow> take 16 msg \<noteq> ''Unable to access''"
proof (cases "make_request_with_retry up (CollectionEndpoint loc) 3 (sleep 1 w)")
  case (Pair res w1)
  show ?thesis
  proof (cases res)
    case (Inl e')
    with Pair assms have "e' = e" by (simp add: fetch_services_def)
    with Pair Inl make_request_error show ?thesis by blast
  next
    case (Inr r)
    with Pair have ok: "status_code r = 200" by (auto dest: make_request_200)
    from assms Pair Inr ok show ?thesis
      by (auto simp: fetch_services_def split: option.splits sum.splits if_splits
          dest: py_get_error service_loop_error)
  qed
qed

lemma woollahra_fetch_error:
  assumes "fst (woollahra_fetch L up address) = Inl e"
  shows "\<forall>msg. e = Raise Exception msg \<longrightarrow> take 16 msg \<noteq> ''Unable to access''"
proof (cases "make_request_with_retry up (AddressSearch address) 3 (warm_up up [])")
  case (Pair res w)
  show ?thesis
  proof (cases res)
    case (Inl e')
    with Pair assms have "e' = e" by (simp add: woollahra_fetch_def)
    with Pair Inl make_request_error show ?thesis by blast
  next
    case (Inr r)
    with Pair have ok: "status_code r = 200" by (auto dest: make_request_200)
    from assms Pair Inr ok show ?thesis
      by (auto simp: woollahra_fetch_def split: option.splits sum.splits if_splits
          dest: find_location_id_error fetch_services_error)
  qed
qed

text \<open>
  Claim C10. Every response that \<^verbatim>\<open>_make_request_with_retry\<close> returns has status 200.
  So the two tests \<^verbatim>\<open>r.status_code != 200\<close> that follow its calls in \<^verbatim>\<open>fetch\<close> never
  hold: \<^verbatim>\<open>fetch\<close> never raises the error of either, whatever stands in the message for
  the status.
\<close>

theorem status_checks_after_helper_are_dead:
  "(make_request_with_retry up u max_retries w = (Inr r, w') \<longrightarrow> status_code r = 200)
   \<and> fst (woollahra_fetch L up address) \<noteq>
       Inl (Raise Exception (''Unable to access Woollahra API (status: '' @ s @
         ''). This may be due to bot protection. Please try again later or contact support.''))
   \<and> fst (woollahra_fetch L up address) \<noteq>
       Inl (Raise Exception (''Unable to access Woollahra waste services API (status: '' @ s @ '')''))"
proof (intro conjI impI)
  assume "make_request_with_retry up u max_retries w = (Inr r, w')"
  then show "status_code r = 200" by (rule make_request_200)
next
  show "fst (woollahra_fetch L up address) \<noteq>
       Inl (Raise Exception (''Unable to access Woollahra API (status: '' @ s @
         ''). This may be due to bot protection. Please try again later or contact support.''))"
    using woollahra_fetch_error [of L up address] by force
next
  show "fst (woollahra_fetch L up address) \<noteq>
       Inl (Raise Exception (''Unable to access Woollahra waste services API (status: '' @ s @ '')''))"
    using woollahra_fetch_error [of L up address] by force
qed

text \<open>The theorem at a helper call that is answered with status 200.\<close>

theorem status_checks_after_helper_are_dead_witness:
  "make_request_with_retry (\<lambda>n u. Response \<lparr>status_code = 200, response_text = ''ok''\<rparr>)
      MainPage 3 [] = (Inr \<lparr>status_code = 200, response_text = ''ok''\<rparr>, [Get MainPage])
   \<and> status_code \<lparr>status_code = 200, response_text = ''ok''\<rparr> = 200"
proof -
  have m: "make_request_with_retry (\<lambda>n u. Response \<lparr>status_code = 200, response_text = ''ok''\<rparr>)
      MainPage 3 [] = (Inr \<lparr>status_code = 200, response_text = ''ok''\<rparr>, [Get MainPage])"
    by (simp add: make_request_with_retry_def retry_loop_ok)
  with status_checks_after_helper_are_dead
    [where up = "\<lambda>n u. Response \<lparr>status_code = 200, response_text = ''ok''\<rparr>" and u = MainPage
      and max_retries = 3 and w = "[]" and r = "\<lparr>status_code = 200, response_text = ''ok''\<rparr>"
      and w' = "[Get MainPage]"]
  have "status_code \<lparr>status_code = 200, response_text = ''ok''\<rparr> = 200" by blast
  with m show ?thesis by blast
qed



end
